theory Spec2Isabelle
  imports Main
begin

section \<open>Kernel module management: the DaemonSet generator (internal/daemonset/daemonset.go)\<close>

text \<open>
  A shallow embedding of \<^verbatim>\<open>internal/daemonset/daemonset.go\<close>. Go strings are byte
  strings and are modelled as \<^typ>\<open>string\<close>; a Go pointer that may be nil is an
  \<^typ>\<open>'a option\<close> (\<open>None\<close> is nil); a Go slice whose nil-ness is observable is an
  \<^typ>\<open>'a list option\<close>; a Go \<^verbatim>\<open>map[string]string\<close> is a map
  \<^typ>\<open>string \<rightharpoonup> string\<close> that is read with the zero value for a missing key.
\<close>

subsection \<open>Go library functions used by the source\<close>

text \<open>\<^verbatim>\<open>strings.Join(elems, sep)\<close>: the elements, in order, with \<open>sep\<close> between
  neighbours; the empty string for no element.\<close>

fun strings_Join :: "string list \<Rightarrow> string \<Rightarrow> string" where
  "strings_Join [] sep = []"
| "strings_Join [x] sep = x"
| "strings_Join (x # y # ys) sep = x @ sep @ strings_Join (y # ys) sep"

text \<open>Reading \<^verbatim>\<open>m[k]\<close> from a Go \<^verbatim>\<open>map[string]string\<close>: a missing key (and every
  key of a nil map) reads as the empty string.\<close>

definition go_index :: "(string \<rightharpoonup> string) \<Rightarrow> string \<Rightarrow> string" where
  "go_index m k = (case m k of None \<Rightarrow> [] | Some v \<Rightarrow> v)"

subsection \<open>Constants of the package\<close>

definition kubeletDevicePluginsVolumeName :: string where
  "kubeletDevicePluginsVolumeName = ''kubelet-device-plugins''"

definition kubeletDevicePluginsPath :: string where
  "kubeletDevicePluginsPath = ''/var/lib/kubelet/device-plugins''"

definition nodeLibModulesPath :: string where
  "nodeLibModulesPath = ''/lib/modules''"

definition nodeLibModulesVolumeName :: string where
  "nodeLibModulesVolumeName = ''node-lib-modules''"

definition nodeUsrLibModulesPath :: string where
  "nodeUsrLibModulesPath = ''/usr/lib/modules''"

definition nodeUsrLibModulesVolumeName :: string where
  "nodeUsrLibModulesVolumeName = ''node-usr-lib-modules''"

definition nodeVarLibFirmwarePath :: string where
  "nodeVarLibFirmwarePath = ''/var/lib/firmware''"

definition nodeVarLibFirmwareVolumeName :: string where
  "nodeVarLibFirmwareVolumeName = ''node-var-lib-firmware''"

definition devicePluginKernelVersion :: string where
  "devicePluginKernelVersion = []"

subsection \<open>The modprobe specification (api/v1beta1)\<close>

text \<open>The type \<^verbatim>\<open>kmmv1beta1.ModprobeSpec\<close> is declared outside the file; its fields are
  the ones the file reads. \<open>Args\<close> and \<open>RawArgs\<close> are pointers to a pair of string
  slices, one per direction.\<close>

record ModprobeArgs =
  Load :: "string list"
  Unload :: "string list"

record ModprobeSpec =
  ModuleName :: string
  Parameters :: "string list"
  DirName :: string
  Args :: "ModprobeArgs option"
  RawArgs :: "ModprobeArgs option"
  FirmwarePath :: string

subsection \<open>Command synthesis\<close>

text \<open>\<^verbatim>\<open>MakeLoadCommand\<close>, lines 383 to 401: the command string when the raw load
  arguments do not apply, built up in the order of the source's assignments to
  \<^verbatim>\<open>loadCommand\<close>.\<close>

definition MakeLoadCommand_derived :: "ModprobeSpec \<Rightarrow> string \<Rightarrow> string \<Rightarrow> string" where
  "MakeLoadCommand_derived spec modName loadCommand0 =
    (let loadCommand1 =
           (if FirmwarePath spec \<noteq> []
            then ''cp -r '' @ FirmwarePath spec @ '' '' @ nodeVarLibFirmwarePath @ ''/'' @ modName
                   @ '' && '' @ loadCommand0
            else loadCommand0);
         loadCommand2 =
           (case Args spec of
              Some a \<Rightarrow>
                if 0 < length (Load a)
                then loadCommand1 @ '' '' @ strings_Join (Load a) '' ''
                else loadCommand1 @ '' -v''
            | None \<Rightarrow> loadCommand1 @ '' -v'');
         loadCommand3 =
           (if DirName spec \<noteq> []
            then loadCommand2 @ '' -d '' @ DirName spec
            else loadCommand2);
         loadCommand4 = loadCommand3 @ '' '' @ ModuleName spec
     in if 0 < length (Parameters spec)
        then loadCommand4 @ '' '' @ strings_Join (Parameters spec) '' ''
        else loadCommand4)"

definition MakeLoadCommand :: "ModprobeSpec \<Rightarrow> string \<Rightarrow> string list" where
  "MakeLoadCommand spec modName =
    (let loadCommandShell = [''/bin/sh'', ''-c''];
         loadCommand = ''modprobe''
     in case RawArgs spec of
          Some ra \<Rightarrow>
            if 0 < length (Load ra)
            then loadCommandShell @ [loadCommand @ '' '' @ strings_Join (Load ra) '' '']
            else loadCommandShell @ [MakeLoadCommand_derived spec modName loadCommand]
        | None \<Rightarrow> loadCommandShell @ [MakeLoadCommand_derived spec modName loadCommand])"

text \<open>\<^verbatim>\<open>MakeUnloadCommand\<close>, lines 419 to 433.\<close>

definition MakeUnloadCommand_derived :: "ModprobeSpec \<Rightarrow> string \<Rightarrow> string \<Rightarrow> string" where
  "MakeUnloadCommand_derived spec modName unloadCommand0 =
    (let unloadCommand1 =
           (case Args spec of
              Some a \<Rightarrow>
                if 0 < length (Unload a)
                then unloadCommand0 @ '' '' @ strings_Join (Unload a) '' ''
                else unloadCommand0 @ '' -rv''
            | None \<Rightarrow> unloadCommand0 @ '' -rv'');
         unloadCommand2 =
           (if DirName spec \<noteq> []
            then unloadCommand1 @ '' -d '' @ DirName spec
            else unloadCommand1);
         unloadCommand3 = unloadCommand2 @ '' '' @ ModuleName spec
     in if FirmwarePath spec \<noteq> []
        then unloadCommand3 @ '' && rm -rf '' @ nodeVarLibFirmwarePath @ ''/'' @ modName
        else unloadCommand3)"

definition MakeUnloadCommand :: "ModprobeSpec \<Rightarrow> string \<Rightarrow> string list" where
  "MakeUnloadCommand spec modName =
    (let unloadCommandShell = [''/bin/sh'', ''-c''];
         unloadCommand = ''modprobe''
     in case RawArgs spec of
          Some ra \<Rightarrow>
            if 0 < length (Unload ra)
            then unloadCommandShell @ [unloadCommand @ '' '' @ strings_Join (Unload ra) '' '']
            else unloadCommandShell @ [MakeUnloadCommand_derived spec modName unloadCommand]
        | None \<Rightarrow> unloadCommandShell @ [MakeUnloadCommand_derived spec modName unloadCommand])"

subsection \<open>Errors\<close>

text \<open>
  The error values of the file, one constructor per construction site, and the run-time
  panic of a nil dereference:
  \<^item> \<open>errors_New msg\<close> is \<^verbatim>\<open>errors.New(msg)\<close>;
  \<^item> \<open>CouldNotDeleteDaemonSet name err\<close> is
    \<^verbatim>\<open>fmt.Errorf("could not delete DaemonSet %s: %v", ds.Name, err)\<close>;
  \<^item> \<open>CouldNotGetAllDaemonSets err\<close> is
    \<^verbatim>\<open>fmt.Errorf("could not get all DaemonSets: %w", err)\<close>;
  \<^item> \<open>CouldNotListDaemonSets err\<close> is
    \<^verbatim>\<open>fmt.Errorf("could not list DaemonSets: %v", err)\<close>;
  \<^item> \<open>MultipleDaemonSetsFound kernelVersion\<close> is
    \<^verbatim>\<open>fmt.Errorf("multiple DaemonSets found for kernel %q", kernelVersion)\<close>;
  \<^item> \<open>External msg\<close> is an error of the object store or of the owner-reference
    primitive;
  \<^item> \<open>Panic_nil_dereference\<close> is not a returned error: the goroutine panics.
\<close>

datatype error =
    Panic_nil_dereference
  | errors_New string
  | CouldNotDeleteDaemonSet string error
  | CouldNotGetAllDaemonSets error
  | CouldNotListDaemonSets error
  | MultipleDaemonSetsFound string
  | External string

subsection \<open>Objects of the orchestration platform\<close>

text \<open>The Kubernetes types are declared outside the repository. Each record has the
  fields that the file reads or writes; a field of a record that the file builds with a
  composite literal and does not list is the zero value there and is left out.\<close>

record LocalObjectReference =
  LocalObjectReference_Name :: string

record OwnerReference =
  OwnerReference_Kind :: string
  OwnerReference_Name :: string
  OwnerReference_Controller :: bool

record EnvVar =
  EnvVar_Name :: string
  EnvVar_Value :: string

record ResourceRequirements =
  Limits :: "string \<rightharpoonup> string"
  Requests :: "string \<rightharpoonup> string"

record VolumeMount =
  VolumeMount_Name :: string
  ReadOnly :: bool
  MountPath :: string

text \<open>\<open>HostPath_Type\<close> is the pointer \<^verbatim>\<open>*v1.HostPathType\<close>; the two values the file
  uses are \<^verbatim>\<open>v1.HostPathDirectory\<close> and \<^verbatim>\<open>v1.HostPathDirectoryOrCreate\<close>.\<close>

record HostPathVolumeSource =
  HostPath_Path :: string
  HostPath_Type :: "string option"

definition HostPathDirectory :: string where
  "HostPathDirectory = ''Directory''"

definition HostPathDirectoryOrCreate :: string where
  "HostPathDirectoryOrCreate = ''DirectoryOrCreate''"

record Volume =
  Volume_Name :: string
  HostPath :: "HostPathVolumeSource option"

record SecurityContext =
  AllowPrivilegeEscalation :: "bool option"
  Capabilities_Add :: "string list option"
  Privileged :: "bool option"
  RunAsUser :: "int option"
  SELinuxOptions_Type :: "string option"

text \<open>A lifecycle handler of the file is always an exec action; the record keeps the
  command of \<^verbatim>\<open>PostStart.Exec\<close> and of \<^verbatim>\<open>PreStop.Exec\<close>.\<close>

record Lifecycle =
  PostStart_Exec_Command :: "string list"
  PreStop_Exec_Command :: "string list"

record Container =
  Container_Args :: "string list"
  Container_Command :: "string list"
  Container_Env :: "EnvVar list"
  Container_Name :: string
  Container_Image :: string
  Container_ImagePullPolicy :: string
  Container_Lifecycle :: "Lifecycle option"
  Container_Resources :: ResourceRequirements
  Container_SecurityContext :: "SecurityContext option"
  Container_VolumeMounts :: "VolumeMount list"

record PodSpec =
  Containers :: "Container list"
  ImagePullSecrets :: "LocalObjectReference list option"
  NodeSelector :: "string \<rightharpoonup> string"
  PriorityClassName :: string
  ServiceAccountName :: string
  Volumes :: "Volume list"

record PodTemplateSpec =
  Template_Labels :: "string \<rightharpoonup> string"
  Template_Finalizers :: "string list"
  Template_Spec :: PodSpec

text \<open>\<open>Selector_MatchLabels\<close> is \<^verbatim>\<open>Spec.Selector\<close>, a pointer to a label selector,
  with the selector's \<^verbatim>\<open>MatchLabels\<close>.\<close>

record DaemonSetSpec =
  Selector_MatchLabels :: "(string \<rightharpoonup> string) option"
  Template :: PodTemplateSpec

record DaemonSet =
  DaemonSet_Name :: string
  DaemonSet_Namespace :: string
  DaemonSet_Labels :: "string \<rightharpoonup> string"
  DaemonSet_OwnerReferences :: "OwnerReference list"
  DaemonSet_Spec :: DaemonSetSpec

record Pod =
  Pod_Labels :: "string \<rightharpoonup> string"

subsection \<open>The module (api/v1beta1)\<close>

record ModuleLoaderContainerSpec =
  ModuleLoader_ImagePullPolicy :: string
  Modprobe :: ModprobeSpec

record ModuleLoaderSpec =
  ModuleLoader_Container :: ModuleLoaderContainerSpec
  ModuleLoader_ServiceAccountName :: string

record DevicePluginContainerSpec =
  DevicePlugin_Args :: "string list"
  DevicePlugin_Command :: "string list"
  DevicePlugin_Env :: "EnvVar list"
  DevicePlugin_Image :: string
  DevicePlugin_ImagePullPolicy :: string
  DevicePlugin_Resources :: ResourceRequirements
  DevicePlugin_VolumeMounts :: "VolumeMount list"

record DevicePluginSpec =
  DevicePlugin_Container :: DevicePluginContainerSpec
  DevicePlugin_ServiceAccountName :: string
  DevicePlugin_Volumes :: "Volume list"

record ModuleSpec =
  ModuleLoader :: ModuleLoaderSpec
  DevicePlugin :: "DevicePluginSpec option"
  Selector :: "string \<rightharpoonup> string"
  ImageRepoSecret :: "LocalObjectReference option"

record Module =
  Module_Name :: string
  Module_Namespace :: string
  Module_Spec :: ModuleSpec

subsection \<open>What the file takes from outside\<close>

text \<open>The label keys and the finalizer of the package \<^verbatim>\<open>internal/constants\<close>, which
  is not part of the file: they are parameters of the functions that use them.\<close>

record constants =
  ModuleNameLabel :: string
  DaemonSetRole :: string
  NodeLabelerFinalizer :: string

text \<open>
  The generator holds the kernel-version label key and two external collaborators:
  \<^item> the object-store client, over a store of type \<open>'st\<close>. \<open>client_Delete\<close> is
    \<^verbatim>\<open>client.Delete(ctx, ds)\<close>: the error, if any, and the store afterwards.
    \<open>client_List\<close> is \<^verbatim>\<open>client.List(ctx, &dsList, MatchingLabels(labels),
    InNamespace(namespace))\<close>: an error or the items listed;
  \<^item> the scheme, used only by \<^verbatim>\<open>controllerutil.SetControllerReference(owner, ds,
    scheme)\<close>, which either fails or rewrites the owner references of \<open>ds\<close> and
    nothing else: \<open>scheme_SetControllerReference\<close> gives the error or the new
    owner references.
\<close>

record 'st daemonSetGenerator =
  client_Delete :: "'st \<Rightarrow> DaemonSet \<Rightarrow> error option \<times> 'st"
  client_List :: "'st \<Rightarrow> (string \<rightharpoonup> string) \<Rightarrow> string \<Rightarrow> error + DaemonSet list"
  kernelLabel :: string
  scheme_SetControllerReference :: "Module \<Rightarrow> DaemonSet \<Rightarrow> error + OwnerReference list"

subsection \<open>Label and selector utilities\<close>

text \<open>\<^verbatim>\<open>isDevicePluginDaemonSet\<close>, on a pointer that is not nil (the callers' nil case
  is the panic branch of \<open>GarbageCollect_loop\<close>).\<close>

definition isDevicePluginDaemonSet :: "'st daemonSetGenerator \<Rightarrow> DaemonSet \<Rightarrow> bool" where
  "isDevicePluginDaemonSet dc ds = (go_index (DaemonSet_Labels ds) (kernelLabel dc) = [])"

text \<open>\<^verbatim>\<open>CopyMapStringString\<close> builds a fresh map with the entries of \<open>m\<close>. Values
  have no identity here, so the copy is the map of the same entries.\<close>

definition CopyMapStringString :: "(string \<rightharpoonup> string) \<Rightarrow> (string \<rightharpoonup> string)" where
  "CopyMapStringString m = (\<lambda>k. m k)"

definition getDriverContainerNodeLabel :: "string \<Rightarrow> string" where
  "getDriverContainerNodeLabel moduleName = ''kmm.node.kubernetes.io/'' @ moduleName @ ''.ready''"

definition getDevicePluginNodeLabel :: "string \<Rightarrow> string" where
  "getDevicePluginNodeLabel moduleName =
     ''kmm.node.kubernetes.io/'' @ moduleName @ ''.device-plugin-ready''"

definition IsDevicePluginKernelVersion :: "string \<Rightarrow> bool" where
  "IsDevicePluginKernelVersion kernelVersion = (kernelVersion = devicePluginKernelVersion)"

definition GetDevicePluginKernelVersion :: string where
  "GetDevicePluginKernelVersion = devicePluginKernelVersion"

text \<open>\<^verbatim>\<open>GetPodPullSecrets\<close>: the result is a slice, \<open>None\<close> when it is nil.\<close>

definition GetPodPullSecrets ::
    "LocalObjectReference option \<Rightarrow> LocalObjectReference list option" where
  "GetPodPullSecrets secret = (case secret of None \<Rightarrow> None | Some s \<Rightarrow> Some [s])"

text \<open>\<^verbatim>\<open>OverrideLabels\<close> writes every entry of \<open>overrides\<close> into \<open>labels\<close> (into a
  new map when \<open>labels\<close> is nil): the entries of \<open>labels\<close>, overridden.\<close>

definition OverrideLabels ::
    "(string \<rightharpoonup> string) \<Rightarrow> (string \<rightharpoonup> string) \<Rightarrow> (string \<rightharpoonup> string)" where
  "OverrideLabels labels overrides = labels ++ overrides"

subsection \<open>The node-readiness label of a pod\<close>

text \<open>\<^verbatim>\<open>GetNodeLabelFromPod\<close>: \<open>pod\<close> is a pointer, and reading the labels of a nil
  pod panics.\<close>

definition GetNodeLabelFromPod ::
    "'st daemonSetGenerator \<Rightarrow> Pod option \<Rightarrow> string \<Rightarrow> error + string" where
  "GetNodeLabelFromPod dc pod moduleName =
    (case pod of
       None \<Rightarrow> Inl Panic_nil_dereference
     | Some p \<Rightarrow>
         (let kernelVersion = go_index (Pod_Labels p) (kernelLabel dc)
          in if kernelVersion = devicePluginKernelVersion
             then Inr (getDevicePluginNodeLabel moduleName)
             else Inr (getDriverContainerNodeLabel moduleName)))"

subsection \<open>Garbage collection\<close>

text \<open>
  \<^verbatim>\<open>GarbageCollect\<close>. \<open>existingDS\<close> is the Go map as the \<^verbatim>\<open>range\<close> statement visits
  it: its entries, key and pointer, in the order of the visit, which Go leaves
  unspecified. \<open>validKernels\<close> is the \<^verbatim>\<open>sets.String\<close>. The result is the pair
  returned (the names deleted, or the error) together with the store afterwards: a
  failed delete returns at once and keeps the deletions already made.
\<close>

fun GarbageCollect_loop ::
    "'st daemonSetGenerator \<Rightarrow> string set \<Rightarrow> (string \<times> DaemonSet option) list \<Rightarrow>
     'st \<Rightarrow> string list \<Rightarrow> (error + string list) \<times> 'st" where
  "GarbageCollect_loop dc validKernels [] st deleted = (Inr deleted, st)"
| "GarbageCollect_loop dc validKernels ((kernelVersion, None) # rest) st deleted =
     (Inl Panic_nil_dereference, st)"
| "GarbageCollect_loop dc validKernels ((kernelVersion, Some ds) # rest) st deleted =
     (if \<not> isDevicePluginDaemonSet dc ds \<and> kernelVersion \<notin> validKernels
      then (case client_Delete dc st ds of
              (Some err, st') \<Rightarrow> (Inl (CouldNotDeleteDaemonSet (DaemonSet_Name ds) err), st')
            | (None, st') \<Rightarrow>
                GarbageCollect_loop dc validKernels rest st' (deleted @ [DaemonSet_Name ds]))
      else GarbageCollect_loop dc validKernels rest st deleted)"

definition GarbageCollect ::
    "'st daemonSetGenerator \<Rightarrow> 'st \<Rightarrow> (string \<times> DaemonSet option) list \<Rightarrow> string set \<Rightarrow>
     (error + string list) \<times> 'st" where
  "GarbageCollect dc st existingDS validKernels =
     GarbageCollect_loop dc validKernels existingDS st []"

subsection \<open>Lookup by kernel version\<close>

definition moduleDaemonSets ::
    "constants \<Rightarrow> 'st daemonSetGenerator \<Rightarrow> 'st \<Rightarrow> string \<Rightarrow> string \<Rightarrow> error + DaemonSet list" where
  "moduleDaemonSets c dc st name namespace =
    (case client_List dc st [ModuleNameLabel c \<mapsto> name] namespace of
       Inl err \<Rightarrow> Inl (CouldNotListDaemonSets err)
     | Inr items \<Rightarrow> Inr items)"

text \<open>The loop of \<^verbatim>\<open>ModuleDaemonSetsByKernelVersion\<close> over \<open>dsList\<close>, from index
  \<open>i\<close> on. The map holds the address of a fresh copy of each item, never nil, so
  \<^verbatim>\<open>dsByKernelVersion[kernelVersion] != nil\<close> holds exactly when the key is in the map.\<close>

fun ModuleDaemonSetsByKernelVersion_loop ::
    "'st daemonSetGenerator \<Rightarrow> DaemonSet list \<Rightarrow> (string \<rightharpoonup> DaemonSet) \<Rightarrow>
     error + (string \<rightharpoonup> DaemonSet)" where
  "ModuleDaemonSetsByKernelVersion_loop dc [] dsByKernelVersion = Inr dsByKernelVersion"
| "ModuleDaemonSetsByKernelVersion_loop dc (ds # rest) dsByKernelVersion =
     (let kernelVersion = go_index (DaemonSet_Labels ds) (kernelLabel dc)
      in if dsByKernelVersion kernelVersion \<noteq> None
         then Inl (MultipleDaemonSetsFound kernelVersion)
         else ModuleDaemonSetsByKernelVersion_loop dc rest
                (dsByKernelVersion(kernelVersion \<mapsto> ds)))"

definition ModuleDaemonSetsByKernelVersion ::
    "constants \<Rightarrow> 'st daemonSetGenerator \<Rightarrow> 'st \<Rightarrow> string \<Rightarrow> string \<Rightarrow>
     error + (string \<rightharpoonup> DaemonSet)" where
  "ModuleDaemonSetsByKernelVersion c dc st name namespace =
    (case moduleDaemonSets c dc st name namespace of
       Inl err \<Rightarrow> Inl (CouldNotGetAllDaemonSets err)
     | Inr dsList \<Rightarrow> ModuleDaemonSetsByKernelVersion_loop dc dsList Map.empty)"

subsection \<open>The module-loader workload\<close>

text \<open>
  \<^verbatim>\<open>SetDriverContainerAsDesired\<close> returns an error (\<open>None\<close> for nil) and writes
  through the pointer \<open>ds\<close>: the result pairs the error with the object behind the
  pointer after the call (\<open>None\<close> when the pointer is nil). The object is written
  before the owner reference is set, so a failure there leaves it written.

  The map literal \<open>standardLabels\<close> is built as the Go compiler builds it: the
  entries whose key and value are both constants are stored first, then the other
  entries in the order of the literal, each store overwriting an equal key. Here the
  role entry is the constant one, so where the configurable \<open>kernelLabel\<close> equals
  another key, the kernel version is the value that stays.
\<close>

definition SetDriverContainerAsDesired ::
    "constants \<Rightarrow> 'st daemonSetGenerator \<Rightarrow> DaemonSet option \<Rightarrow> string \<Rightarrow> Module \<Rightarrow> string \<Rightarrow>
     error option \<times> DaemonSet option" where
  "SetDriverContainerAsDesired c dc ds image' module kernelVersion =
    (case ds of
       None \<Rightarrow> (Some (errors_New ''ds cannot be nil''), None)
     | Some d \<Rightarrow>
        if image' = [] then (Some (errors_New ''image cannot be empty''), Some d)
        else if kernelVersion = [] then (Some (errors_New ''kernelVersion cannot be empty''), Some d)
        else
         (let standardLabels =
                [DaemonSetRole c \<mapsto> ''module-loader'',
                 ModuleNameLabel c \<mapsto> Module_Name module,
                 kernelLabel dc \<mapsto> kernelVersion];
              d1 = d\<lparr>DaemonSet_Labels := OverrideLabels (DaemonSet_Labels d) standardLabels\<rparr>;
              nodeSelector =
                (CopyMapStringString (Selector (Module_Spec module)))(kernelLabel dc \<mapsto> kernelVersion);
              hostPathDirectory = HostPathDirectory;
              hostPathDirectoryOrCreate = HostPathDirectoryOrCreate;
              modprobe = Modprobe (ModuleLoader_Container (ModuleLoader (Module_Spec module)));
              container =
                \<lparr>Container_Args = [],
                 Container_Command = [''sleep'', ''infinity''],
                 Container_Env = [],
                 Container_Name = ''module-loader'',
                 Container_Image = image',
                 Container_ImagePullPolicy =
                   ModuleLoader_ImagePullPolicy (ModuleLoader_Container (ModuleLoader (Module_Spec module))),
                 Container_Lifecycle =
                   Some \<lparr>PostStart_Exec_Command = MakeLoadCommand modprobe (Module_Name module),
                         PreStop_Exec_Command = MakeUnloadCommand modprobe (Module_Name module)\<rparr>,
                 Container_Resources = \<lparr>Limits = Map.empty, Requests = Map.empty\<rparr>,
                 Container_SecurityContext =
                   Some \<lparr>AllowPrivilegeEscalation = Some False,
                         Capabilities_Add = Some [''SYS_MODULE''],
                         Privileged = None,
                         RunAsUser = Some 0,
                         SELinuxOptions_Type = Some ''spc_t''\<rparr>,
                 Container_VolumeMounts =
                   [\<lparr>VolumeMount_Name = nodeLibModulesVolumeName, ReadOnly = True,
                     MountPath = nodeLibModulesPath\<rparr>,
                    \<lparr>VolumeMount_Name = nodeUsrLibModulesVolumeName, ReadOnly = True,
                     MountPath = nodeUsrLibModulesPath\<rparr>]\<rparr>;
              volumes =
                [\<lparr>Volume_Name = nodeLibModulesVolumeName,
                  HostPath = Some \<lparr>HostPath_Path = nodeLibModulesPath,
                                    HostPath_Type = Some hostPathDirectory\<rparr>\<rparr>,
                 \<lparr>Volume_Name = nodeUsrLibModulesVolumeName,
                  HostPath = Some \<lparr>HostPath_Path = nodeUsrLibModulesPath,
                                    HostPath_Type = Some hostPathDirectory\<rparr>\<rparr>];
              moduleFirmwarePath = nodeVarLibFirmwarePath @ ''/'' @ Module_Name module;
              firmwareVolume =
                \<lparr>Volume_Name = nodeVarLibFirmwareVolumeName,
                 HostPath = Some \<lparr>HostPath_Path = moduleFirmwarePath,
                                   HostPath_Type = Some hostPathDirectoryOrCreate\<rparr>\<rparr>;
              firmwareVolumeMount =
                \<lparr>VolumeMount_Name = nodeVarLibFirmwareVolumeName, ReadOnly = False,
                 MountPath = moduleFirmwarePath\<rparr>;
              volumes' = (if FirmwarePath modprobe \<noteq> [] then volumes @ [firmwareVolume] else volumes);
              container' =
                (if FirmwarePath modprobe \<noteq> []
                 then container\<lparr>Container_VolumeMounts :=
                        Container_VolumeMounts container @ [firmwareVolumeMount]\<rparr>
                 else container);
              d2 = d1\<lparr>DaemonSet_Spec :=
                     \<lparr>Selector_MatchLabels = Some standardLabels,
                      Template =
                        \<lparr>Template_Labels = standardLabels,
                         Template_Finalizers = [NodeLabelerFinalizer c],
                         Template_Spec =
                           \<lparr>Containers = [container'],
                            ImagePullSecrets = GetPodPullSecrets (ImageRepoSecret (Module_Spec module)),
                            NodeSelector = nodeSelector,
                            PriorityClassName = ''system-node-critical'',
                            ServiceAccountName =
                              ModuleLoader_ServiceAccountName (ModuleLoader (Module_Spec module)),
                            Volumes = volumes'\<rparr>\<rparr>\<rparr>\<rparr>
          in case scheme_SetControllerReference dc module d2 of
               Inl err \<Rightarrow> (Some err, Some d2)
             | Inr refs \<Rightarrow> (None, Some (d2\<lparr>DaemonSet_OwnerReferences := refs\<rparr>))))"

subsection \<open>The device-plugin workload\<close>

text \<open>\<^verbatim>\<open>SetDevicePluginAsDesired\<close> takes the module by pointer as well: with \<open>ds\<close> not
  nil, reading \<^verbatim>\<open>mod.Spec\<close> of a nil module panics.\<close>

definition SetDevicePluginAsDesired ::
    "constants \<Rightarrow> 'st daemonSetGenerator \<Rightarrow> DaemonSet option \<Rightarrow> Module option \<Rightarrow>
     error option \<times> DaemonSet option" where
  "SetDevicePluginAsDesired c dc ds module =
    (case ds of
       None \<Rightarrow> (Some (errors_New ''ds cannot be nil''), None)
     | Some d \<Rightarrow>
        (case module of
           None \<Rightarrow> (Some Panic_nil_dereference, Some d)
         | Some m \<Rightarrow>
            (case DevicePlugin (Module_Spec m) of
               None \<Rightarrow> (Some (errors_New ''device plugin in module should not be nil''), Some d)
             | Some dp \<Rightarrow>
                (let containerVolumeMounts =
                       [\<lparr>VolumeMount_Name = kubeletDevicePluginsVolumeName, ReadOnly = False,
                         MountPath = kubeletDevicePluginsPath\<rparr>];
                     hostPathDirectory = HostPathDirectory;
                     devicePluginVolume =
                       \<lparr>Volume_Name = kubeletDevicePluginsVolumeName,
                        HostPath = Some \<lparr>HostPath_Path = kubeletDevicePluginsPath,
                                          HostPath_Type = Some hostPathDirectory\<rparr>\<rparr>;
                     standardLabels =
                       [DaemonSetRole c \<mapsto> ''device-plugin'',
                        ModuleNameLabel c \<mapsto> Module_Name m];
                     d1 = d\<lparr>DaemonSet_Labels := OverrideLabels (DaemonSet_Labels d) standardLabels\<rparr>;
                     d2 = d1\<lparr>DaemonSet_Spec :=
                            \<lparr>Selector_MatchLabels = Some standardLabels,
                             Template =
                               \<lparr>Template_Labels = standardLabels,
                                Template_Finalizers = [NodeLabelerFinalizer c],
                                Template_Spec =
                                  \<lparr>Containers =
                                     [\<lparr>Container_Args = DevicePlugin_Args (DevicePlugin_Container dp),
                                       Container_Command = DevicePlugin_Command (DevicePlugin_Container dp),
                                       Container_Env = DevicePlugin_Env (DevicePlugin_Container dp),
                                       Container_Name = ''device-plugin'',
                                       Container_Image = DevicePlugin_Image (DevicePlugin_Container dp),
                                       Container_ImagePullPolicy =
                                         DevicePlugin_ImagePullPolicy (DevicePlugin_Container dp),
                                       Container_Lifecycle = None,
                                       Container_Resources =
                                         DevicePlugin_Resources (DevicePlugin_Container dp),
                                       Container_SecurityContext =
                                         Some \<lparr>AllowPrivilegeEscalation = None,
                                               Capabilities_Add = None,
                                               Privileged = Some True,
                                               RunAsUser = None,
                                               SELinuxOptions_Type = None\<rparr>,
                                       Container_VolumeMounts =
                                         DevicePlugin_VolumeMounts (DevicePlugin_Container dp)
                                           @ containerVolumeMounts\<rparr>],
                                   ImagePullSecrets = GetPodPullSecrets (ImageRepoSecret (Module_Spec m)),
                                   NodeSelector = [getDriverContainerNodeLabel (Module_Name m) \<mapsto> []],
                                   PriorityClassName = ''system-node-critical'',
                                   ServiceAccountName = DevicePlugin_ServiceAccountName dp,
                                   Volumes = [devicePluginVolume] @ DevicePlugin_Volumes dp\<rparr>\<rparr>\<rparr>\<rparr>
                 in case scheme_SetControllerReference dc m d2 of
                      Inl err \<Rightarrow> (Some err, Some d2)
                    | Inr refs \<Rightarrow> (None, Some (d2\<lparr>DaemonSet_OwnerReferences := refs\<rparr>))))))"

section \<open>Notions used to state the properties\<close>

subsection \<open>Occurrences in a command string\<close>

text \<open>The pieces of a command string between single spaces, as
  \<^verbatim>\<open>strings.Split(s, " ")\<close> gives them.\<close>

fun split_on_space :: "string \<Rightarrow> string list" where
  "split_on_space [] = [[]]"
| "split_on_space (c # cs) =
     (if c = CHR '' '' then [] # split_on_space cs
      else (case split_on_space cs of
              [] \<Rightarrow> [[c]]
            | w # ws \<Rightarrow> (c # w) # ws))"

text \<open>How often \<open>w\<close> stands in \<open>s\<close> as a word between spaces, and how often it
  stands there at all, counting every position where it starts.\<close>

definition occurrences_as_word :: "string \<Rightarrow> string \<Rightarrow> nat" where
  "occurrences_as_word w s = count_list (split_on_space s) w"

fun occurrences :: "string \<Rightarrow> string \<Rightarrow> nat" where
  "occurrences w [] = (if w = [] then 1 else 0)"
| "occurrences w (c # cs) = (if take (length w) (c # cs) = w then 1 else 0) + occurrences w cs"

text \<open>The part of a load command before the module name, as a function of the four
  inputs that fix it: the caller's module name, the firmware path, the load arguments of
  \<open>Args\<close> (none when \<open>Args\<close> is nil) and the directory.\<close>

definition load_command_prefix :: "string \<Rightarrow> string \<Rightarrow> string list \<Rightarrow> string \<Rightarrow> string" where
  "load_command_prefix modName firmwarePath argsLoad dirName =
     (if firmwarePath \<noteq> []
      then ''cp -r '' @ firmwarePath @ '' /var/lib/firmware/'' @ modName @ '' && ''
      else [])
     @ ''modprobe''
     @ (if argsLoad \<noteq> [] then '' '' @ strings_Join argsLoad '' '' else '' -v'')
     @ (if dirName \<noteq> [] then '' -d '' @ dirName else [])"

subsection \<open>Garbage collection, as the specification words it\<close>

text \<open>The delete policy of section 4.5 for a given sequence of workloads: delete each
  in turn, collect the names, and stop at the first failed delete with the error,
  keeping the deletions already made.\<close>

fun deleteEach ::
    "'st daemonSetGenerator \<Rightarrow> DaemonSet list \<Rightarrow> 'st \<Rightarrow> string list \<Rightarrow>
     (error + string list) \<times> 'st" where
  "deleteEach dc [] st deleted = (Inr deleted, st)"
| "deleteEach dc (ds # rest) st deleted =
     (case client_Delete dc st ds of
        (Some err, st') \<Rightarrow> (Inl (CouldNotDeleteDaemonSet (DaemonSet_Name ds) err), st')
      | (None, st') \<Rightarrow> deleteEach dc rest st' (deleted @ [DaemonSet_Name ds]))"

text \<open>The entries that section 4.5 selects: the key is not the device-plugin sentinel
  and is not a valid kernel.\<close>

definition orphaned :: "(string \<times> DaemonSet) list \<Rightarrow> string set \<Rightarrow> DaemonSet list" where
  "orphaned es validKernels =
     map snd (filter (\<lambda>e. fst e \<noteq> devicePluginKernelVersion \<and> fst e \<notin> validKernels) es)"

text \<open>The entries selected by the workload's own kernel-version label: the label
  reads non-empty, and the key is not a valid kernel.\<close>

definition collected ::
    "'st daemonSetGenerator \<Rightarrow> (string \<times> DaemonSet) list \<Rightarrow> string set \<Rightarrow> DaemonSet list" where
  "collected dc es validKernels =
     map snd (filter (\<lambda>e. go_index (DaemonSet_Labels (snd e)) (kernelLabel dc) \<noteq> []
                          \<and> fst e \<notin> validKernels) es)"

text \<open>A Go map whose pointers are all set: the entries, each pointer not nil.\<close>

definition entries_of :: "(string \<times> DaemonSet) list \<Rightarrow> (string \<times> DaemonSet option) list" where
  "entries_of es = map (\<lambda>e. (fst e, Some (snd e))) es"

text \<open>\<^verbatim>\<open>len\<close> of a slice; a nil slice has length zero.\<close>

definition slice_len :: "'a list option \<Rightarrow> nat" where
  "slice_len s = (case s of None \<Rightarrow> 0 | Some xs \<Rightarrow> length xs)"

subsection \<open>Fixtures\<close>

text \<open>An in-memory object store for the examples: the DaemonSets of one module. A
  delete removes the object of that namespace and name and fails when there is none; a
  list gives the objects of the namespace.\<close>

definition same_object :: "DaemonSet \<Rightarrow> DaemonSet \<Rightarrow> bool" where
  "same_object a b =
     (DaemonSet_Namespace a = DaemonSet_Namespace b \<and> DaemonSet_Name a = DaemonSet_Name b)"

definition fake_Delete :: "DaemonSet list \<Rightarrow> DaemonSet \<Rightarrow> error option \<times> DaemonSet list" where
  "fake_Delete objs ds =
     (if filter (same_object ds) objs = [] then (Some (External ''not found''), objs)
      else (None, filter (\<lambda>obj. \<not> same_object ds obj) objs))"

definition fake_List ::
    "DaemonSet list \<Rightarrow> (string \<rightharpoonup> string) \<Rightarrow> string \<Rightarrow> error + DaemonSet list" where
  "fake_List objs labels namespace = Inr (filter (\<lambda>obj. DaemonSet_Namespace obj = namespace) objs)"

definition fakeGenerator :: "DaemonSet list daemonSetGenerator" where
  "fakeGenerator =
     \<lparr>client_Delete = fake_Delete,
      client_List = fake_List,
      kernelLabel = ''kmm.node.kubernetes.io/kernel-version.full'',
      scheme_SetControllerReference =
        (\<lambda>owner ds. Inr [\<lparr>OwnerReference_Kind = ''Module'',
                           OwnerReference_Name = Module_Name owner,
                           OwnerReference_Controller = True\<rparr>])\<rparr>"

definition kmmConstants :: constants where
  "kmmConstants =
     \<lparr>ModuleNameLabel = ''kmm.node.kubernetes.io/module.name'',
      DaemonSetRole = ''kmm.node.kubernetes.io/role'',
      NodeLabelerFinalizer = ''kmm.node.kubernetes.io/node-labeler''\<rparr>"

definition emptyPodSpec :: PodSpec where
  "emptyPodSpec =
     \<lparr>Containers = [], ImagePullSecrets = None, NodeSelector = Map.empty,
      PriorityClassName = [], ServiceAccountName = [], Volumes = []\<rparr>"

definition emptyDaemonSetSpec :: DaemonSetSpec where
  "emptyDaemonSetSpec =
     \<lparr>Selector_MatchLabels = None,
      Template = \<lparr>Template_Labels = Map.empty, Template_Finalizers = [],
                  Template_Spec = emptyPodSpec\<rparr>\<rparr>"

text \<open>A DaemonSet of the namespace \<open>ns\<close> with the given name and labels, and a
  module-loader DaemonSet labelled with its kernel version.\<close>

definition daemonSetNamed :: "string \<Rightarrow> (string \<rightharpoonup> string) \<Rightarrow> DaemonSet" where
  "daemonSetNamed name labels =
     \<lparr>DaemonSet_Name = name, DaemonSet_Namespace = ''ns'', DaemonSet_Labels = labels,
      DaemonSet_OwnerReferences = [], DaemonSet_Spec = emptyDaemonSetSpec\<rparr>"

definition loaderNamed :: "string \<Rightarrow> string \<Rightarrow> DaemonSet" where
  "loaderNamed name kernelVersion =
     daemonSetNamed name [''kmm.node.kubernetes.io/kernel-version.full'' \<mapsto> kernelVersion]"

text \<open>A module of the namespace \<open>ns\<close> that loads \<open>kmm_ci_a\<close>, with the given name and
  device-plugin section, and a device-plugin section with the given image.\<close>

definition moduleNamed :: "string \<Rightarrow> DevicePluginSpec option \<Rightarrow> Module" where
  "moduleNamed name devicePlugin =
     \<lparr>Module_Name = name, Module_Namespace = ''ns'',
      Module_Spec =
        \<lparr>ModuleLoader =
           \<lparr>ModuleLoader_Container =
              \<lparr>ModuleLoader_ImagePullPolicy = [],
               Modprobe = \<lparr>ModuleName = ''kmm_ci_a'', Parameters = [], DirName = [],
                            Args = None, RawArgs = None, FirmwarePath = []\<rparr>\<rparr>,
            ModuleLoader_ServiceAccountName = []\<rparr>,
         DevicePlugin = devicePlugin,
         Selector = Map.empty,
         ImageRepoSecret = None\<rparr>\<rparr>"

definition devicePluginWithImage :: "string \<Rightarrow> DevicePluginSpec" where
  "devicePluginWithImage img =
     \<lparr>DevicePlugin_Container =
        \<lparr>DevicePlugin_Args = [], DevicePlugin_Command = [], DevicePlugin_Env = [],
         DevicePlugin_Image = img, DevicePlugin_ImagePullPolicy = [],
         DevicePlugin_Resources = \<lparr>Limits = Map.empty, Requests = Map.empty\<rparr>,
         DevicePlugin_VolumeMounts = []\<rparr>,
      DevicePlugin_ServiceAccountName = [],
      DevicePlugin_Volumes = []\<rparr>"

text \<open>The kernel-version label value that a DaemonSet reads under the generator's key,
  \<^verbatim>\<open>ds.Labels[dc.kernelLabel]\<close>.\<close>

abbreviation (input) kernelVersionOf :: "'st daemonSetGenerator \<Rightarrow> DaemonSet \<Rightarrow> string" where
  "kernelVersionOf dc ds \<equiv> go_index (DaemonSet_Labels ds) (kernelLabel dc)"

section \<open>Properties\<close>

subsection \<open>Command synthesis\<close>

text \<open>
  C3. Two modprobe specifications whose raw load arguments are present, equal and
  non-empty give the same load command, whatever their other fields and whatever
  module name the caller passes: the triple \<open>/bin/sh\<close>, \<open>-c\<close>, \<open>modprobe\<close> followed by a
  space and the raw load arguments joined by single spaces.
\<close>

theorem MakeLoadCommand_raw_args_only:
  assumes "RawArgs spec1 = Some ra1" and "RawArgs spec2 = Some ra2"
    and "Load ra1 = Load ra2" and "Load ra1 \<noteq> []"
    and "ModuleName spec1 = ModuleName spec2"
  shows "MakeLoadCommand spec1 modName1 = MakeLoadCommand spec2 modName2
         \<and> MakeLoadCommand spec1 modName1
             = [''/bin/sh'', ''-c'', ''modprobe '' @ strings_Join (Load ra1) '' '']"
  using assms by (simp add: MakeLoadCommand_def)

theorem MakeLoadCommand_raw_args_only_witness:
  "MakeLoadCommand
     \<lparr>ModuleName = ''m'', Parameters = [''p1=1''], DirName = ''/opt'',
      Args = Some \<lparr>Load = [''-q''], Unload = []\<rparr>,
      RawArgs = Some \<lparr>Load = [''-v'', ''m'', ''x=2''], Unload = []\<rparr>,
      FirmwarePath = ''/fw''\<rparr> ''mod-a''
   = MakeLoadCommand
     \<lparr>ModuleName = ''m'', Parameters = [], DirName = [],
      Args = None,
      RawArgs = Some \<lparr>Load = [''-v'', ''m'', ''x=2''], Unload = [''-r'', ''m'']\<rparr>,
      FirmwarePath = []\<rparr> ''mod-b''
   \<and> MakeLoadCommand
     \<lparr>ModuleName = ''m'', Parameters = [''p1=1''], DirName = ''/opt'',
      Args = Some \<lparr>Load = [''-q''], Unload = []\<rparr>,
      RawArgs = Some \<lparr>Load = [''-v'', ''m'', ''x=2''], Unload = []\<rparr>,
      FirmwarePath = ''/fw''\<rparr> ''mod-a''
   = [''/bin/sh'', ''-c'', ''modprobe -v m x=2'']"
  using MakeLoadCommand_raw_args_only
    [of "\<lparr>ModuleName = ''m'', Parameters = [''p1=1''], DirName = ''/opt'',
          Args = Some \<lparr>Load = [''-q''], Unload = []\<rparr>,
          RawArgs = Some \<lparr>Load = [''-v'', ''m'', ''x=2''], Unload = []\<rparr>,
          FirmwarePath = ''/fw''\<rparr>"
        "\<lparr>Load = [''-v'', ''m'', ''x=2''], Unload = []\<rparr>"
        "\<lparr>ModuleName = ''m'', Parameters = [], DirName = [],
          Args = None,
          RawArgs = Some \<lparr>Load = [''-v'', ''m'', ''x=2''], Unload = [''-r'', ''m'']\<rparr>,
          FirmwarePath = []\<rparr>"
        "\<lparr>Load = [''-v'', ''m'', ''x=2''], Unload = [''-r'', ''m'']\<rparr>"
        "''mod-a''" "''mod-b''"]
  by auto

text \<open>
  C8. For the specification with module name \<open>m\<close>, firmware path
  \<open>/var/lib/firmware/m\<close> and the single parameter \<open>p1=1\<close> (no raw arguments, no
  argument overrides, no directory), of the module named \<open>m\<close>: the load command copies
  the firmware path into \<open>/var/lib/firmware/m\<close> and then, after \<open>&&\<close>, runs
  \<open>modprobe -v m p1=1\<close>; the unload command is \<open>modprobe -rv m && rm -rf
  /var/lib/firmware/m\<close>, the cleanup after the modprobe call and no parameter in it.
\<close>

theorem firmware_scenario_commands:
  "MakeLoadCommand
     \<lparr>ModuleName = ''m'', Parameters = [''p1=1''], DirName = [], Args = None,
      RawArgs = None, FirmwarePath = ''/var/lib/firmware/m''\<rparr> ''m''
   = [''/bin/sh'', ''-c'',
      ''cp -r /var/lib/firmware/m /var/lib/firmware/m && modprobe -v m p1=1'']
   \<and> MakeUnloadCommand
     \<lparr>ModuleName = ''m'', Parameters = [''p1=1''], DirName = [], Args = None,
      RawArgs = None, FirmwarePath = ''/var/lib/firmware/m''\<rparr> ''m''
   = [''/bin/sh'', ''-c'', ''modprobe -rv m && rm -rf /var/lib/firmware/m'']"
  by (simp add: MakeLoadCommand_def MakeLoadCommand_derived_def
      MakeUnloadCommand_def MakeUnloadCommand_derived_def nodeVarLibFirmwarePath_def)

lemma split_on_space_not_Nil: "split_on_space s \<noteq> []"
  by (induction s) (auto split: list.splits)

lemma split_on_space_append:
  "split_on_space (a @ CHR '' '' # b) = split_on_space a @ split_on_space b"
proof (induction a)
  case Nil
  show ?case by simp
next
  case (Cons c a)
  show ?case
  proof (cases "c = CHR '' ''")
    case True
    then show ?thesis using Cons.IH by simp
  next
    case False
    obtain w ws where s: "split_on_space a = w # ws"
      using split_on_space_not_Nil [of a] by (cases "split_on_space a") auto
    show ?thesis using False Cons.IH s by simp
  qed
qed

lemma split_on_space_word: "CHR '' '' \<notin> set w \<Longrightarrow> split_on_space w = [w]"
  by (induction w) auto

text \<open>
  C4, amended. For a specification without raw arguments the load command string is a
  prefix, a space, the module name and then, when there are parameters, a space and the
  parameters joined by single spaces in their order. The prefix is fixed by the
  caller's module name, the firmware path, the load arguments of \<open>Args\<close> and the
  directory alone: the firmware copy joined with \<open>&&\<close> when there is a firmware path,
  \<open>modprobe\<close>, the load arguments or else \<open>-v\<close>, and \<open>-d\<close> with the directory when
  there is one. The synthesizer writes the module name once: a module name without a
  space stands in the string as a word once more than it stands in the prefix and in
  the joined parameters together.
\<close>

theorem MakeLoadCommand_module_name_then_parameters:
  assumes "RawArgs spec = None"
  shows "MakeLoadCommand spec modName
      = [''/bin/sh'', ''-c'',
         load_command_prefix modName (FirmwarePath spec)
             (case Args spec of None \<Rightarrow> [] | Some a \<Rightarrow> Load a) (DirName spec)
           @ '' '' @ ModuleName spec
           @ (if Parameters spec = [] then []
              else '' '' @ strings_Join (Parameters spec) '' '')]
    \<and> (CHR '' '' \<notin> set (ModuleName spec) \<longrightarrow>
         occurrences_as_word (ModuleName spec)
           (load_command_prefix modName (FirmwarePath spec)
               (case Args spec of None \<Rightarrow> [] | Some a \<Rightarrow> Load a) (DirName spec)
             @ '' '' @ ModuleName spec
             @ (if Parameters spec = [] then []
                else '' '' @ strings_Join (Parameters spec) '' ''))
         = occurrences_as_word (ModuleName spec)
             (load_command_prefix modName (FirmwarePath spec)
               (case Args spec of None \<Rightarrow> [] | Some a \<Rightarrow> Load a) (DirName spec))
           + 1
           + (if Parameters spec = [] then 0
              else occurrences_as_word (ModuleName spec)
                     (strings_Join (Parameters spec) '' '')))"
proof -
  have shape: "MakeLoadCommand spec modName
      = [''/bin/sh'', ''-c'',
         load_command_prefix modName (FirmwarePath spec)
             (case Args spec of None \<Rightarrow> [] | Some a \<Rightarrow> Load a) (DirName spec)
           @ '' '' @ ModuleName spec
           @ (if Parameters spec = [] then []
              else '' '' @ strings_Join (Parameters spec) '' '')]"
    using assms
    by (simp add: MakeLoadCommand_def MakeLoadCommand_derived_def load_command_prefix_def
        nodeVarLibFirmwarePath_def Let_def split: option.splits)
  have count: "occurrences_as_word name (pre @ '' '' @ name @ (if ps = [] then [] else '' '' @ joined))
           = occurrences_as_word name pre + 1
             + (if ps = [] then 0 else occurrences_as_word name joined)"
    if "CHR '' '' \<notin> set name" for name pre joined and ps :: "string list"
    using that
    by (simp add: occurrences_as_word_def split_on_space_append split_on_space_word)
  from shape count show ?thesis by blast
qed

text \<open>
  C4 as stated fails when another field repeats the module name: with the module name
  \<open>m\<close> and the parameter \<open>m\<close> the command is \<open>modprobe -v m m\<close>, in which \<open>m\<close>
  stands twice as a word and three times as a substring.
\<close>

theorem MakeLoadCommand_module_name_twice_counterexample:
  "MakeLoadCommand
     \<lparr>ModuleName = ''m'', Parameters = [''m''], DirName = [], Args = None,
      RawArgs = None, FirmwarePath = []\<rparr> ''m''
   = [''/bin/sh'', ''-c'', ''modprobe -v m m'']
   \<and> occurrences_as_word ''m'' ''modprobe -v m m'' = 2
   \<and> occurrences ''m'' ''modprobe -v m m'' = 3"
  by (simp add: MakeLoadCommand_def MakeLoadCommand_derived_def occurrences_as_word_def)

theorem MakeLoadCommand_module_name_then_parameters_witness:
  "MakeLoadCommand
       \<lparr>ModuleName = ''kmm_ci_a'', Parameters = [''p1=1'', ''p2=2''], DirName = ''/opt'',
        Args = Some \<lparr>Load = [], Unload = [''-r'']\<rparr>, RawArgs = None,
        FirmwarePath = ''/fw''\<rparr> ''mod''
     = [''/bin/sh'', ''-c'',
        ''cp -r /fw /var/lib/firmware/mod && modprobe -v -d /opt kmm_ci_a p1=1 p2=2'']
   \<and> occurrences_as_word ''kmm_ci_a''
         ''cp -r /fw /var/lib/firmware/mod && modprobe -v -d /opt kmm_ci_a p1=1 p2=2'' = 1"
proof -
  let ?spec = "\<lparr>ModuleName = ''kmm_ci_a'', Parameters = [''p1=1'', ''p2=2''], DirName = ''/opt'',
        Args = Some \<lparr>Load = [], Unload = [''-r'']\<rparr>, RawArgs = None,
        FirmwarePath = ''/fw''\<rparr>"
  have raw: "RawArgs ?spec = None" by simp
  have no_space: "CHR '' '' \<notin> set (ModuleName ?spec)" by simp
  have pre: "load_command_prefix ''mod'' ''/fw'' [] ''/opt''
             = ''cp -r /fw /var/lib/firmware/mod && modprobe -v -d /opt''"
    by (simp add: load_command_prefix_def)
  have in_pre: "occurrences_as_word ''kmm_ci_a''
      ''cp -r /fw /var/lib/firmware/mod && modprobe -v -d /opt'' = 0"
    by (simp add: occurrences_as_word_def)
  have in_params: "occurrences_as_word ''kmm_ci_a'' ''p1=1 p2=2'' = 0"
    by (simp add: occurrences_as_word_def)
  from MakeLoadCommand_module_name_then_parameters [OF raw, where modName = "''mod''"]
    no_space
  show ?thesis
    by (simp add: pre in_pre in_params)
qed

subsection \<open>Garbage collection\<close>

lemma GarbageCollect_loop_deleteEach:
  "GarbageCollect_loop dc validKernels (entries_of es) st deleted
     = deleteEach dc (collected dc es validKernels) st deleted"
proof (induction es arbitrary: st deleted)
  case Nil
  then show ?case by (simp add: entries_of_def collected_def)
next
  case (Cons e es)
  obtain k d where e: "e = (k, d)" by (cases e)
  have IH: "\<And>st deleted. GarbageCollect_loop dc validKernels (entries_of es) st deleted
     = deleteEach dc (collected dc es validKernels) st deleted"
    using Cons.IH by simp
  show ?case
    using IH
    by (auto simp: e entries_of_def collected_def isDevicePluginDaemonSet_def
        split: prod.splits option.splits)
qed

lemma deleteEach_names:
  "deleteEach dc dss st deleted = (Inr names, st') \<Longrightarrow> names = deleted @ map DaemonSet_Name dss"
proof (induction dss arbitrary: st deleted)
  case Nil
  then show ?case by simp
next
  case (Cons d dss)
  from Cons.prems obtain st1 where
    rest: "deleteEach dc dss st1 (deleted @ [DaemonSet_Name d]) = (Inr names, st')"
    by (auto split: prod.splits option.splits)
  from Cons.IH [OF rest] show ?case by simp
qed

lemma collected_orphaned:
  assumes dp: "\<forall>e \<in> set es. fst e = devicePluginKernelVersion
                   \<longrightarrow> kernelVersionOf dc (snd e) = []"
    and ml: "\<forall>e \<in> set es. fst e \<noteq> devicePluginKernelVersion \<and> fst e \<notin> validKernels
                   \<longrightarrow> kernelVersionOf dc (snd e) \<noteq> []"
  shows "collected dc es validKernels = orphaned es validKernels"
proof -
  have "filter (\<lambda>e. kernelVersionOf dc (snd e) \<noteq> [] \<and> fst e \<notin> validKernels) es
      = filter (\<lambda>e. fst e \<noteq> devicePluginKernelVersion \<and> fst e \<notin> validKernels) es"
  proof (rule filter_cong [OF refl])
    fix e assume e: "e \<in> set es"
    show "(kernelVersionOf dc (snd e) \<noteq> [] \<and> fst e \<notin> validKernels)
        = (fst e \<noteq> devicePluginKernelVersion \<and> fst e \<notin> validKernels)"
    proof (cases "fst e = devicePluginKernelVersion")
      case True
      with dp e have "kernelVersionOf dc (snd e) = []" by blast
      with True show ?thesis by simp
    next
      case False
      show ?thesis
      proof (cases "fst e \<in> validKernels")
        case True
        then show ?thesis by simp
      next
        case out: False
        with ml e False have "kernelVersionOf dc (snd e) \<noteq> []" by blast
        with False show ?thesis by simp
      qed
    qed
  qed
  then show ?thesis by (simp add: collected_def orphaned_def)
qed

text \<open>
  C1, amended. Take a map, all pointers set, in which every DaemonSet under the
  device-plugin sentinel key reads the empty string under the kernel-version label,
  and every DaemonSet under a key that is neither the sentinel nor a valid kernel
  reads a non-empty one. When \<open>GarbageCollect\<close> succeeds, it has deleted exactly the
  entries whose key is not the sentinel and not a valid kernel, in the order of the
  visit; it returns their names; and no DaemonSet under the sentinel key is among the
  deleted ones.
\<close>

theorem GarbageCollect_orphans_by_key:
  assumes dp: "\<forall>e \<in> set es. fst e = devicePluginKernelVersion
                   \<longrightarrow> kernelVersionOf dc (snd e) = []"
    and ml: "\<forall>e \<in> set es. fst e \<noteq> devicePluginKernelVersion \<and> fst e \<notin> validKernels
                   \<longrightarrow> kernelVersionOf dc (snd e) \<noteq> []"
    and ok: "GarbageCollect dc st (entries_of es) validKernels = (Inr deleted, st')"
  shows "deleteEach dc (orphaned es validKernels) st [] = (Inr deleted, st')
       \<and> deleted = map DaemonSet_Name (orphaned es validKernels)
       \<and> (\<forall>e \<in> set es. fst e = devicePluginKernelVersion \<longrightarrow> snd e \<notin> set (orphaned es validKernels))"
proof -
  have run: "deleteEach dc (orphaned es validKernels) st [] = (Inr deleted, st')"
    using ok by (simp add: GarbageCollect_def GarbageCollect_loop_deleteEach
        collected_orphaned [OF dp ml])
  have names: "deleted = map DaemonSet_Name (orphaned es validKernels)"
    using deleteEach_names [OF run] by simp
  have safe: "\<forall>e \<in> set es. fst e = devicePluginKernelVersion \<longrightarrow> snd e \<notin> set (orphaned es validKernels)"
  proof (intro ballI impI notI)
    fix e assume e: "e \<in> set es" and key: "fst e = devicePluginKernelVersion"
      and mem: "snd e \<in> set (orphaned es validKernels)"
    from mem obtain e' where e': "e' \<in> set es" and same: "snd e' = snd e"
      and key': "fst e' \<noteq> devicePluginKernelVersion" and out: "fst e' \<notin> validKernels"
      by (auto simp: orphaned_def)
    from dp e key have "kernelVersionOf dc (snd e) = []" by blast
    moreover from ml e' key' out have "kernelVersionOf dc (snd e') \<noteq> []" by blast
    ultimately show False using same by simp
  qed
  from run names safe show ?thesis by blast
qed

text \<open>
  C10. \<open>GarbageCollect\<close> classifies by the DaemonSet's own kernel-version label: on a
  map with all pointers set it behaves as the deletion, in the order of the visit, of
  exactly the entries whose label reads non-empty and whose key is not a valid kernel.
  So an entry whose DaemonSet reads the empty string under the label is never deleted,
  whatever its key; and an entry under the empty key whose DaemonSet carries a
  non-empty label is deleted unless the empty string is a valid kernel.
\<close>

theorem GarbageCollect_classifies_by_label:
  "GarbageCollect dc st (entries_of es) validKernels
     = deleteEach dc (collected dc es validKernels) st []
   \<and> (\<forall>e \<in> set es. kernelVersionOf dc (snd e) = []
         \<longrightarrow> snd e \<notin> set (collected dc es validKernels))
   \<and> (\<forall>e \<in> set es. fst e = [] \<and> [] \<notin> validKernels
            \<and> kernelVersionOf dc (snd e) \<noteq> []
         \<longrightarrow> snd e \<in> set (collected dc es validKernels))"
  by (auto simp: GarbageCollect_def GarbageCollect_loop_deleteEach collected_def)

lemmas fixture_defs =
  GarbageCollect_def entries_of_def fakeGenerator_def fake_Delete_def same_object_def
  loaderNamed_def daemonSetNamed_def isDevicePluginDaemonSet_def go_index_def
  devicePluginKernelVersion_def

theorem GarbageCollect_orphans_by_key_witness:
  "GarbageCollect fakeGenerator
     [loaderNamed ''ds1'' ''5.11'', daemonSetNamed ''ds2'' Map.empty,
      daemonSetNamed ''ds3'' Map.empty]
     (entries_of [(''5.10'', loaderNamed ''ds1'' ''5.11''), ('''', daemonSetNamed ''ds2'' Map.empty),
                  (''5.14'', daemonSetNamed ''ds3'' Map.empty)])
     {''5.14''}
   = (Inr [''ds1''], [daemonSetNamed ''ds2'' Map.empty, daemonSetNamed ''ds3'' Map.empty])
   \<and> orphaned [(''5.10'', loaderNamed ''ds1'' ''5.11''), ('''', daemonSetNamed ''ds2'' Map.empty),
                (''5.14'', daemonSetNamed ''ds3'' Map.empty)]
        {''5.14''}
     = [loaderNamed ''ds1'' ''5.11'']
   \<and> daemonSetNamed ''ds2'' Map.empty
       \<notin> set (orphaned [(''5.10'', loaderNamed ''ds1'' ''5.11''),
                       ('''', daemonSetNamed ''ds2'' Map.empty),
                       (''5.14'', daemonSetNamed ''ds3'' Map.empty)]
               {''5.14''})"
proof -
  let ?es = "[(''5.10'', loaderNamed ''ds1'' ''5.11''), ('''', daemonSetNamed ''ds2'' Map.empty),
              (''5.14'', daemonSetNamed ''ds3'' Map.empty)]"
  have dp: "\<forall>e \<in> set ?es. fst e = devicePluginKernelVersion
              \<longrightarrow> kernelVersionOf fakeGenerator (snd e) = []"
    by (simp add: fixture_defs)
  have ml: "\<forall>e \<in> set ?es. fst e \<noteq> devicePluginKernelVersion \<and> fst e \<notin> {''5.14''}
              \<longrightarrow> kernelVersionOf fakeGenerator (snd e) \<noteq> []"
    by (simp add: fixture_defs)
  have ok: "GarbageCollect fakeGenerator
     [loaderNamed ''ds1'' ''5.11'', daemonSetNamed ''ds2'' Map.empty,
      daemonSetNamed ''ds3'' Map.empty] (entries_of ?es) {''5.14''}
   = (Inr [''ds1''], [daemonSetNamed ''ds2'' Map.empty, daemonSetNamed ''ds3'' Map.empty])"
    by (simp add: fixture_defs)
  have sel: "orphaned ?es {''5.14''} = [loaderNamed ''ds1'' ''5.11'']"
    by (simp add: orphaned_def devicePluginKernelVersion_def)
  from GarbageCollect_orphans_by_key [OF dp ml ok] have
    "\<forall>e \<in> set ?es. fst e = devicePluginKernelVersion \<longrightarrow> snd e \<notin> set (orphaned ?es {''5.14''})"
    by blast
  then have "daemonSetNamed ''ds2'' Map.empty \<notin> set (orphaned ?es {''5.14''})"
    by (simp add: devicePluginKernelVersion_def)
  with ok sel show ?thesis by blast
qed

text \<open>
  C1 as stated fails on a map whose key disagrees with the DaemonSet's label. A
  DaemonSet without kernel-version label under the key \<open>5.10\<close>, no kernel valid: the
  key selects it, the code deletes nothing. A DaemonSet labelled \<open>5.10\<close> under the
  sentinel key, \<open>5.10\<close> valid: the key protects it, the code deletes it.
\<close>

theorem GarbageCollect_by_key_counterexample:
  "GarbageCollect fakeGenerator [daemonSetNamed ''ds2'' Map.empty]
     (entries_of [(''5.10'', daemonSetNamed ''ds2'' Map.empty)]) {}
   = (Inr [], [daemonSetNamed ''ds2'' Map.empty])
   \<and> map DaemonSet_Name (orphaned [(''5.10'', daemonSetNamed ''ds2'' Map.empty)] {}) = [''ds2'']
   \<and> GarbageCollect fakeGenerator [loaderNamed ''ds1'' ''5.10'']
     (entries_of [('''', loaderNamed ''ds1'' ''5.10'')]) {''5.10''}
   = (Inr [''ds1''], [])
   \<and> map DaemonSet_Name (orphaned [('''', loaderNamed ''ds1'' ''5.10'')] {''5.10''}) = []"
  by (simp add: fixture_defs orphaned_def)

theorem GarbageCollect_classifies_by_label_witness:
  "GarbageCollect fakeGenerator
     [daemonSetNamed ''ds2'' Map.empty, loaderNamed ''ds1'' ''5.10'']
     (entries_of [(''5.10'', daemonSetNamed ''ds2'' Map.empty), ('''', loaderNamed ''ds1'' ''5.10'')])
     {''5.14''}
   = (Inr [''ds1''], [daemonSetNamed ''ds2'' Map.empty])
   \<and> daemonSetNamed ''ds2'' Map.empty
       \<notin> set (collected fakeGenerator
                [(''5.10'', daemonSetNamed ''ds2'' Map.empty), ('''', loaderNamed ''ds1'' ''5.10'')]
                {''5.14''})
   \<and> loaderNamed ''ds1'' ''5.10''
       \<in> set (collected fakeGenerator
                [(''5.10'', daemonSetNamed ''ds2'' Map.empty), ('''', loaderNamed ''ds1'' ''5.10'')]
                {''5.14''})"
proof -
  let ?es = "[(''5.10'', daemonSetNamed ''ds2'' Map.empty), ('''', loaderNamed ''ds1'' ''5.10'')]"
  note c10 = GarbageCollect_classifies_by_label [of fakeGenerator "[daemonSetNamed ''ds2'' Map.empty, loaderNamed ''ds1'' ''5.10'']"
      ?es "{''5.14''}"]
  have run: "deleteEach fakeGenerator (collected fakeGenerator ?es {''5.14''})
       [daemonSetNamed ''ds2'' Map.empty, loaderNamed ''ds1'' ''5.10''] []
     = (Inr [''ds1''], [daemonSetNamed ''ds2'' Map.empty])"
    by (simp add: fixture_defs collected_def)
  have a: "daemonSetNamed ''ds2'' Map.empty \<notin> set (collected fakeGenerator ?es {''5.14''})"
    using c10 by (simp add: fixture_defs collected_def)
  have b: "loaderNamed ''ds1'' ''5.10'' \<in> set (collected fakeGenerator ?es {''5.14''})"
    using c10 by (simp add: fixture_defs collected_def)
  from c10 run a b show ?thesis by simp
qed

subsection \<open>Lookup by kernel version\<close>

lemma ModuleDaemonSetsByKernelVersion_loop_distinct:
  assumes "distinct (map (kernelVersionOf dc) dsList)"
    and "\<forall>ds \<in> set dsList. m (kernelVersionOf dc ds) = None"
  shows "\<exists>m'. ModuleDaemonSetsByKernelVersion_loop dc dsList m = Inr m'
           \<and> dom m' = dom m \<union> set (map (kernelVersionOf dc) dsList)
           \<and> (\<forall>ds \<in> set dsList. m' (kernelVersionOf dc ds) = Some ds)
           \<and> (\<forall>k. k \<notin> set (map (kernelVersionOf dc) dsList) \<longrightarrow> m' k = m k)"
  using assms
proof (induction dsList arbitrary: m)
  case Nil
  then show ?case by simp
next
  case (Cons ds rest)
  let ?k = "kernelVersionOf dc ds"
  let ?m1 = "m(?k \<mapsto> ds)"
  have d: "distinct (map (kernelVersionOf dc) rest)" and fresh: "?k \<notin> set (map (kernelVersionOf dc) rest)"
    using Cons.prems(1) by auto
  have none: "\<forall>x \<in> set rest. ?m1 (kernelVersionOf dc x) = None"
  proof
    fix x assume x: "x \<in> set rest"
    then have "kernelVersionOf dc x \<in> set (map (kernelVersionOf dc) rest)" by simp
    with fresh have "kernelVersionOf dc x \<noteq> ?k" by metis
    moreover have "m (kernelVersionOf dc x) = None" using Cons.prems(2) x by simp
    ultimately show "?m1 (kernelVersionOf dc x) = None" by simp
  qed
  from Cons.IH [OF d none] obtain m' where
    run: "ModuleDaemonSetsByKernelVersion_loop dc rest ?m1 = Inr m'"
    and dm: "dom m' = dom ?m1 \<union> set (map (kernelVersionOf dc) rest)"
    and each: "\<forall>x \<in> set rest. m' (kernelVersionOf dc x) = Some x"
    and other: "\<forall>k. k \<notin> set (map (kernelVersionOf dc) rest) \<longrightarrow> m' k = ?m1 k"
    by blast
  have step: "ModuleDaemonSetsByKernelVersion_loop dc (ds # rest) m = Inr m'"
    using Cons.prems(2) run by (simp add: Let_def)
  have here: "m' ?k = Some ds" using other fresh by simp
  have A: "dom m' = dom m \<union> set (map (kernelVersionOf dc) (ds # rest))"
    using dm by auto
  have B: "\<forall>x \<in> set (ds # rest). m' (kernelVersionOf dc x) = Some x"
    using each here by simp
  have C: "\<forall>k. k \<notin> set (map (kernelVersionOf dc) (ds # rest)) \<longrightarrow> m' k = m k"
  proof (intro allI impI)
    fix k assume k: "k \<notin> set (map (kernelVersionOf dc) (ds # rest))"
    then have "k \<noteq> ?k" and "k \<notin> set (map (kernelVersionOf dc) rest)" by auto
    then show "m' k = m k" using other by simp
  qed
  from step A B C show ?case by blast
qed

lemma ModuleDaemonSetsByKernelVersion_loop_duplicate:
  assumes "\<not> distinct (map (kernelVersionOf dc) dsList) \<or> (\<exists>ds \<in> set dsList. m (kernelVersionOf dc ds) \<noteq> None)"
  shows "\<exists>k. ModuleDaemonSetsByKernelVersion_loop dc dsList m = Inl (MultipleDaemonSetsFound k)
           \<and> k \<in> set (map (kernelVersionOf dc) dsList)
           \<and> (m k \<noteq> None \<or> 2 \<le> count_list (map (kernelVersionOf dc) dsList) k)"
  using assms
proof (induction dsList arbitrary: m)
  case Nil
  then show ?case by simp
next
  case (Cons ds rest)
  let ?k = "kernelVersionOf dc ds"
  let ?m1 = "m(?k \<mapsto> ds)"
  show ?case
  proof (cases "m ?k \<noteq> None")
    case True
    then have "ModuleDaemonSetsByKernelVersion_loop dc (ds # rest) m = Inl (MultipleDaemonSetsFound ?k)"
      by (simp add: Let_def)
    moreover have "?k \<in> set (map (kernelVersionOf dc) (ds # rest))" by simp
    ultimately show ?thesis using True by blast
  next
    case False
    then have mk: "m ?k = None" by simp
    have pre: "\<not> distinct (map (kernelVersionOf dc) rest) \<or> (\<exists>x \<in> set rest. ?m1 (kernelVersionOf dc x) \<noteq> None)"
      using Cons.prems mk by auto
    from Cons.IH [OF pre] obtain k where
      run: "ModuleDaemonSetsByKernelVersion_loop dc rest ?m1 = Inl (MultipleDaemonSetsFound k)"
      and mem: "k \<in> set (map (kernelVersionOf dc) rest)"
      and why: "?m1 k \<noteq> None \<or> 2 \<le> count_list (map (kernelVersionOf dc) rest) k"
      by blast
    have step: "ModuleDaemonSetsByKernelVersion_loop dc (ds # rest) m = Inl (MultipleDaemonSetsFound k)"
      using mk run by (simp add: Let_def)
    have "count_list (map (kernelVersionOf dc) rest) k \<noteq> 0"
      using mem by (simp only: count_list_0_iff not_not)
    then have one: "1 \<le> count_list (map (kernelVersionOf dc) rest) k" by simp
    have reason: "m k \<noteq> None \<or> 2 \<le> count_list (map (kernelVersionOf dc) (ds # rest)) k"
    proof (cases "k = ?k")
      case True
      then show ?thesis using one by simp
    next
      case False
      then have "?m1 k = m k" by simp
      then show ?thesis using why False by auto
    qed
    have mem': "k \<in> set (map (kernelVersionOf dc) (ds # rest))" using mem by simp
    from step mem' reason show ?thesis by blast
  qed
qed

text \<open>
  C2. Let the store list \<open>dsList\<close> for the module. If two items of the list read the
  same value under the kernel-version label (a missing label reads as the empty
  string), \<open>ModuleDaemonSetsByKernelVersion\<close> returns the error that names such a
  value, and no map. If the values are pairwise different, it returns the map whose
  keys are exactly these values and which sends the value of each item to the item.
\<close>

theorem ModuleDaemonSetsByKernelVersion_rejects_duplicates:
  assumes "client_List dc st [ModuleNameLabel c \<mapsto> name] namespace = Inr dsList"
  shows "(\<not> distinct (map (kernelVersionOf dc) dsList) \<longrightarrow>
            (\<exists>k. ModuleDaemonSetsByKernelVersion c dc st name namespace
                    = Inl (MultipleDaemonSetsFound k)
                  \<and> 2 \<le> count_list (map (kernelVersionOf dc) dsList) k))
       \<and> (distinct (map (kernelVersionOf dc) dsList) \<longrightarrow>
            (\<exists>m. ModuleDaemonSetsByKernelVersion c dc st name namespace = Inr m
                  \<and> dom m = set (map (kernelVersionOf dc) dsList)
                  \<and> (\<forall>ds \<in> set dsList. m (kernelVersionOf dc ds) = Some ds)))"
proof (intro conjI impI)
  assume dup: "\<not> distinct (map (kernelVersionOf dc) dsList)"
  have "\<exists>k. ModuleDaemonSetsByKernelVersion_loop dc dsList Map.empty = Inl (MultipleDaemonSetsFound k)
           \<and> k \<in> set (map (kernelVersionOf dc) dsList)
           \<and> (Map.empty k \<noteq> (None :: DaemonSet option) \<or> 2 \<le> count_list (map (kernelVersionOf dc) dsList) k)"
    using dup by (intro ModuleDaemonSetsByKernelVersion_loop_duplicate) simp
  then show "\<exists>k. ModuleDaemonSetsByKernelVersion c dc st name namespace
                    = Inl (MultipleDaemonSetsFound k)
                  \<and> 2 \<le> count_list (map (kernelVersionOf dc) dsList) k"
    using assms by (auto simp: ModuleDaemonSetsByKernelVersion_def moduleDaemonSets_def)
next
  assume dis: "distinct (map (kernelVersionOf dc) dsList)"
  have "\<exists>m'. ModuleDaemonSetsByKernelVersion_loop dc dsList Map.empty = Inr m'
           \<and> dom m' = dom (Map.empty :: string \<rightharpoonup> DaemonSet) \<union> set (map (kernelVersionOf dc) dsList)
           \<and> (\<forall>ds \<in> set dsList. m' (kernelVersionOf dc ds) = Some ds)
           \<and> (\<forall>k. k \<notin> set (map (kernelVersionOf dc) dsList) \<longrightarrow> m' k = Map.empty k)"
    using dis by (intro ModuleDaemonSetsByKernelVersion_loop_distinct) simp_all
  then show "\<exists>m. ModuleDaemonSetsByKernelVersion c dc st name namespace = Inr m
                  \<and> dom m = set (map (kernelVersionOf dc) dsList)
                  \<and> (\<forall>ds \<in> set dsList. m (kernelVersionOf dc ds) = Some ds)"
    using assms by (auto simp: ModuleDaemonSetsByKernelVersion_def moduleDaemonSets_def)
qed

theorem ModuleDaemonSetsByKernelVersion_rejects_duplicates_witness:
  "(\<exists>m. ModuleDaemonSetsByKernelVersion kmmConstants fakeGenerator
          [loaderNamed ''ds1'' ''5.10'', loaderNamed ''ds2'' ''5.14''] ''mod'' ''ns'' = Inr m
        \<and> m ''5.10'' = Some (loaderNamed ''ds1'' ''5.10'')
        \<and> m ''5.14'' = Some (loaderNamed ''ds2'' ''5.14'')
        \<and> dom m = {''5.10'', ''5.14''})
   \<and> ModuleDaemonSetsByKernelVersion kmmConstants fakeGenerator
          [loaderNamed ''ds1'' ''5.10'', loaderNamed ''ds3'' ''5.10''] ''mod'' ''ns''
       = Inl (MultipleDaemonSetsFound ''5.10'')"
proof -
  let ?good = "[loaderNamed ''ds1'' ''5.10'', loaderNamed ''ds2'' ''5.14'']"
  let ?bad = "[loaderNamed ''ds1'' ''5.10'', loaderNamed ''ds3'' ''5.10'']"
  have list_good: "client_List fakeGenerator ?good
      [ModuleNameLabel kmmConstants \<mapsto> ''mod''] ''ns'' = Inr ?good"
    by (simp add: fakeGenerator_def fake_List_def loaderNamed_def daemonSetNamed_def)
  have list_bad: "client_List fakeGenerator ?bad
      [ModuleNameLabel kmmConstants \<mapsto> ''mod''] ''ns'' = Inr ?bad"
    by (simp add: fakeGenerator_def fake_List_def loaderNamed_def daemonSetNamed_def)
  have dis: "distinct (map (kernelVersionOf fakeGenerator) ?good)"
    by (simp add: fakeGenerator_def loaderNamed_def daemonSetNamed_def go_index_def)
  have dup: "\<not> distinct (map (kernelVersionOf fakeGenerator) ?bad)"
    by (simp add: fakeGenerator_def loaderNamed_def daemonSetNamed_def go_index_def)
  have keys: "map (kernelVersionOf fakeGenerator) ?good = [''5.10'', ''5.14'']"
    by (simp add: fakeGenerator_def loaderNamed_def daemonSetNamed_def go_index_def)
  from ModuleDaemonSetsByKernelVersion_rejects_duplicates [OF list_good] dis
  obtain m where
    run: "ModuleDaemonSetsByKernelVersion kmmConstants fakeGenerator ?good ''mod'' ''ns'' = Inr m"
    and dm: "dom m = set (map (kernelVersionOf fakeGenerator) ?good)"
    and each: "\<forall>ds \<in> set ?good. m (kernelVersionOf fakeGenerator ds) = Some ds"
    by blast
  have m1: "m ''5.10'' = Some (loaderNamed ''ds1'' ''5.10'')"
    using each by (simp add: fakeGenerator_def loaderNamed_def daemonSetNamed_def go_index_def)
  have m2: "m ''5.14'' = Some (loaderNamed ''ds2'' ''5.14'')"
    using each by (simp add: fakeGenerator_def loaderNamed_def daemonSetNamed_def go_index_def)
  have dm': "dom m = {''5.10'', ''5.14''}"
    using dm by (simp only: keys) simp
  from ModuleDaemonSetsByKernelVersion_rejects_duplicates [OF list_bad] dup
  obtain k where
    bad: "ModuleDaemonSetsByKernelVersion kmmConstants fakeGenerator ?bad ''mod'' ''ns''
            = Inl (MultipleDaemonSetsFound k)"
    and twice: "2 \<le> count_list (map (kernelVersionOf fakeGenerator) ?bad) k"
    by blast
  have "k = ''5.10''"
    using twice
    by (simp add: fakeGenerator_def loaderNamed_def daemonSetNamed_def go_index_def
        split: if_splits)
  with bad run m1 m2 dm' show ?thesis by blast
qed

subsection \<open>Node-readiness label\<close>

text \<open>
  C5. For a pod and a module name, \<open>GetNodeLabelFromPod\<close> returns the
  device-plugin-ready key of the module exactly when the pod reads the empty string
  under the kernel-version label, and the driver-ready key of the module exactly when
  it reads anything else: always one of the two keys, never both.
\<close>

theorem GetNodeLabelFromPod_exactly_one_key:
  "(GetNodeLabelFromPod dc (Some pod) moduleName
      = Inr (''kmm.node.kubernetes.io/'' @ moduleName @ ''.device-plugin-ready'')
    \<longleftrightarrow> go_index (Pod_Labels pod) (kernelLabel dc) = [])
   \<and> (GetNodeLabelFromPod dc (Some pod) moduleName
      = Inr (''kmm.node.kubernetes.io/'' @ moduleName @ ''.ready'')
    \<longleftrightarrow> go_index (Pod_Labels pod) (kernelLabel dc) \<noteq> [])"
proof -
  have "length (moduleName @ ''.device-plugin-ready'') \<noteq> length (moduleName @ ''.ready'')"
    by simp
  then have ne: "moduleName @ ''.device-plugin-ready'' \<noteq> moduleName @ ''.ready''"
    by metis
  show ?thesis
    using ne
    by (simp add: GetNodeLabelFromPod_def getDevicePluginNodeLabel_def
        getDriverContainerNodeLabel_def devicePluginKernelVersion_def Let_def)
qed

subsection \<open>Pull secrets\<close>

text \<open>
  C6 as stated fails: for an absent secret the result is the nil slice, not an empty
  list that is not nil.
\<close>

theorem GetPodPullSecrets_nil_counterexample: "GetPodPullSecrets None \<noteq> Some []"
  by (simp add: GetPodPullSecrets_def)

text \<open>
  C6, amended. For an absent secret \<open>GetPodPullSecrets\<close> returns the nil slice, which
  has length zero; for a secret that is present it returns the list of exactly that
  secret reference.
\<close>

theorem GetPodPullSecrets_projection:
  "GetPodPullSecrets None = None
   \<and> slice_len (GetPodPullSecrets None) = 0
   \<and> GetPodPullSecrets (Some secret) = Some [secret]"
  by (simp add: GetPodPullSecrets_def slice_len_def)

subsection \<open>The workload generators\<close>

text \<open>
  C7. \<open>SetDriverContainerAsDesired\<close> returns an error made by \<open>errors.New\<close>, not a
  panic, and leaves the target as it was, whenever the target pointer is nil, the
  image is empty or the kernel version is empty. \<open>SetDevicePluginAsDesired\<close> does the
  same whenever the target pointer is nil (whatever the module pointer) or the module
  has no device-plugin section.
\<close>

theorem generators_reject_invalid_input:
  "(ds = None \<or> image' = [] \<or> kernelVersion = [] \<longrightarrow>
      SetDriverContainerAsDesired c dc ds image' module kernelVersion
        = (Some (errors_New
             (if ds = None then ''ds cannot be nil''
              else if image' = [] then ''image cannot be empty''
              else ''kernelVersion cannot be empty'')), ds))
   \<and> (ds = None \<or> DevicePlugin (Module_Spec m) = None \<longrightarrow>
      SetDevicePluginAsDesired c dc ds (Some m)
        = (Some (errors_New
             (if ds = None then ''ds cannot be nil''
              else ''device plugin in module should not be nil'')), ds))
   \<and> SetDevicePluginAsDesired c dc None None = (Some (errors_New ''ds cannot be nil''), None)"
  by (auto simp: SetDriverContainerAsDesired_def SetDevicePluginAsDesired_def
      split: option.splits)

theorem generators_reject_invalid_input_witness:
  "SetDriverContainerAsDesired kmmConstants fakeGenerator
     (Some (daemonSetNamed ''w'' Map.empty)) [] (moduleNamed ''mod'' None) ''5.10''
   = (Some (errors_New ''image cannot be empty''), Some (daemonSetNamed ''w'' Map.empty))
   \<and> SetDevicePluginAsDesired kmmConstants fakeGenerator
     (Some (daemonSetNamed ''w'' Map.empty)) (Some (moduleNamed ''mod'' None))
   = (Some (errors_New ''device plugin in module should not be nil''),
      Some (daemonSetNamed ''w'' Map.empty))"
proof -
  have no_plugin: "DevicePlugin (Module_Spec (moduleNamed ''mod'' None)) = None"
    by (simp add: moduleNamed_def)
  from generators_reject_invalid_input
    [where ds = "Some (daemonSetNamed ''w'' Map.empty)" and image' = "[]"
       and kernelVersion = "''5.10''" and c = kmmConstants and dc = fakeGenerator
       and module = "moduleNamed ''mod'' None" and m = "moduleNamed ''mod'' None"]
    no_plugin
  show ?thesis by simp
qed

text \<open>
  C9. For a module with a device-plugin section and a target that is not nil, the
  DaemonSet that \<open>SetDevicePluginAsDesired\<close> leaves behind the pointer has a pod node
  selector with exactly one key, \<open>kmm.node.kubernetes.io/<module name>.ready\<close>, and
  the empty string as its value, whether or not the owner reference could be set.
\<close>

theorem SetDevicePluginAsDesired_node_selector:
  assumes "DevicePlugin (Module_Spec m) = Some dp"
  shows "\<exists>err d'. SetDevicePluginAsDesired c dc (Some d) (Some m) = (err, Some d')
           \<and> NodeSelector (Template_Spec (Template (DaemonSet_Spec d')))
               = [''kmm.node.kubernetes.io/'' @ Module_Name m @ ''.ready'' \<mapsto> []]
           \<and> dom (NodeSelector (Template_Spec (Template (DaemonSet_Spec d'))))
               = {''kmm.node.kubernetes.io/'' @ Module_Name m @ ''.ready''}"
  using assms
  by (auto simp: SetDevicePluginAsDesired_def getDriverContainerNodeLabel_def Let_def
      split: sum.splits)

theorem SetDevicePluginAsDesired_node_selector_witness:
  "\<exists>d'. SetDevicePluginAsDesired kmmConstants fakeGenerator
           (Some (daemonSetNamed ''w'' Map.empty))
           (Some (moduleNamed ''mod'' (Some (devicePluginWithImage ''registry/plugin:1''))))
         = (None, Some d')
       \<and> dom (NodeSelector (Template_Spec (Template (DaemonSet_Spec d'))))
           = {''kmm.node.kubernetes.io/mod.ready''}
       \<and> NodeSelector (Template_Spec (Template (DaemonSet_Spec d')))
           ''kmm.node.kubernetes.io/mod.ready'' = Some []"
proof -
  let ?m = "moduleNamed ''mod'' (Some (devicePluginWithImage ''registry/plugin:1''))"
  have plugin: "DevicePlugin (Module_Spec ?m) = Some (devicePluginWithImage ''registry/plugin:1'')"
    by (simp add: moduleNamed_def)
  have name: "Module_Name ?m = ''mod''"
    by (simp add: moduleNamed_def)
  from SetDevicePluginAsDesired_node_selector [OF plugin, where c = kmmConstants
      and dc = fakeGenerator and d = "daemonSetNamed ''w'' Map.empty"]
  obtain err d' where
    run: "SetDevicePluginAsDesired kmmConstants fakeGenerator
           (Some (daemonSetNamed ''w'' Map.empty)) (Some ?m) = (err, Some d')"
    and sel: "NodeSelector (Template_Spec (Template (DaemonSet_Spec d')))
               = [''kmm.node.kubernetes.io/'' @ Module_Name ?m @ ''.ready'' \<mapsto> []]"
    by blast
  have ok: "fst (SetDevicePluginAsDesired kmmConstants fakeGenerator
           (Some (daemonSetNamed ''w'' Map.empty)) (Some ?m)) = None"
    by (simp add: SetDevicePluginAsDesired_def fakeGenerator_def moduleNamed_def Let_def)
  with run have "err = None" by simp
  with run sel name show ?thesis by auto
qed

end
